theory Spec2Isabelle
  imports Complex_Main
begin

section \<open>The minimal Python A2A agent (app/main.py)\<close>

text \<open>
  The agent has three handlers: \<open>get_agent_card\<close>, \<open>register_agent_card\<close> and
  \<open>a2a_endpoint\<close>, with two generators that produce the streamed bodies. The web framework
  (request parsing, sending of the response, scheduling of the generators) is outside the
  repository: the result of \<open>request.json()\<close> is the input of the model, and a response
  object, or the exception that leaves the handler, is its output. What the framework's
  calls do inside the handlers is part of the model: \<open>JSONResponse(...)\<close> renders its
  content when it is built and can raise.
\<close>

subsection \<open>Python values\<close>

text \<open>
  A Python \<open>float\<close>: a finite number, an infinity or not-a-number. \<open>request.json()\<close> is
  \<open>json.loads\<close>, which gives an infinity for a number too large for a double (\<open>1e999\<close>)
  and accepts the constants \<open>NaN\<close>, \<open>Infinity\<close> and \<open>-Infinity\<close>, which are not JSON.
\<close>

datatype pyfloat = Finite rat | PosInf | NegInf | NaN

text \<open>
  What \<open>request.json()\<close> returns: \<open>None\<close>, a \<open>bool\<close>, an \<open>int\<close>, a \<open>float\<close>, a \<open>str\<close>, a
  \<open>list\<close> or a \<open>dict\<close> with string keys. A \<open>dict\<close> is the list of its items in insertion
  order; in a Python \<open>dict\<close> the keys are distinct.

  A \<open>str\<close> is given by its UTF-8 bytes. An escape such as \<open>\ud800\<close> in the body gives a
  \<open>str\<close> with a lone surrogate, which has no UTF-8 form; it is given by the three bytes
  that the \<open>surrogatepass\<close> handler writes for it: \<open>0xED\<close>, a byte from \<open>0xA0\<close> to
  \<open>0xBF\<close>, and a continuation byte. The strings compared with it in the handlers are
  ASCII, for which equality and substring search on bytes are those on characters.
\<close>

datatype json =
    JNull
  | JBool bool
  | JInt int
  | JFloat pyfloat
  | JStr string
  | JArr "json list"
  | JObj "(string \<times> json) list"

text \<open>
  The exceptions that the operations used by the handlers can raise.
  \<open>UnicodeEncodeError\<close> is a subclass of \<open>ValueError\<close>.
\<close>

datatype py_error = TypeError | AttributeError | KeyError | ValueError | UnicodeEncodeError

text \<open>\<open>k in s\<close> for two strings: \<open>k\<close> occurs in \<open>s\<close> as a contiguous substring.\<close>

fun str_contains :: "string \<Rightarrow> string \<Rightarrow> bool" where
  "str_contains k [] = (k = [])"
| "str_contains k (c # s) = (take (length k) (c # s) = k \<or> str_contains k s)"

text \<open>
  \<open>k in x\<close> for a string \<open>k\<close>: key membership for a \<open>dict\<close>, element equality for a
  \<open>list\<close>, substring for a \<open>str\<close>; \<open>None\<close>, \<open>bool\<close>, \<open>int\<close> and \<open>float\<close> are not iterable
  and raise \<open>TypeError\<close>.
\<close>

fun py_in :: "string \<Rightarrow> json \<Rightarrow> py_error + bool" where
  "py_in k (JObj kvs) = Inr (map_of kvs k \<noteq> None)"
| "py_in k (JArr xs) = Inr (JStr k \<in> set xs)"
| "py_in k (JStr s) = Inr (str_contains k s)"
| "py_in k JNull = Inl TypeError"
| "py_in k (JBool b) = Inl TypeError"
| "py_in k (JInt i) = Inl TypeError"
| "py_in k (JFloat r) = Inl TypeError"

text \<open>
  \<open>x.get(k, d)\<close>: only a \<open>dict\<close> has the method; every other value raises
  \<open>AttributeError\<close>. \<open>x.get(k)\<close> is \<open>x.get(k, None)\<close>.
\<close>

fun py_get :: "json \<Rightarrow> string \<Rightarrow> json \<Rightarrow> py_error + json" where
  "py_get (JObj kvs) k d = Inr (case map_of kvs k of None \<Rightarrow> d | Some v \<Rightarrow> v)"
| "py_get JNull k d = Inl AttributeError"
| "py_get (JBool b) k d = Inl AttributeError"
| "py_get (JInt i) k d = Inl AttributeError"
| "py_get (JFloat r) k d = Inl AttributeError"
| "py_get (JStr s) k d = Inl AttributeError"
| "py_get (JArr xs) k d = Inl AttributeError"

text \<open>
  \<open>x[k]\<close> for a string \<open>k\<close>: the value of the key in a \<open>dict\<close> (\<open>KeyError\<close> when it has
  none); a \<open>list\<close> or \<open>str\<close> indexed by a string and a value that is not subscriptable
  raise \<open>TypeError\<close>.
\<close>

fun py_getitem :: "json \<Rightarrow> string \<Rightarrow> py_error + json" where
  "py_getitem (JObj kvs) k = (case map_of kvs k of None \<Rightarrow> Inl KeyError | Some v \<Rightarrow> Inr v)"
| "py_getitem JNull k = Inl TypeError"
| "py_getitem (JBool b) k = Inl TypeError"
| "py_getitem (JInt i) k = Inl TypeError"
| "py_getitem (JFloat r) k = Inl TypeError"
| "py_getitem (JStr s) k = Inl TypeError"
| "py_getitem (JArr xs) k = Inl TypeError"

text \<open>\<open>isinstance(x, str)\<close>.\<close>

fun isinstance_str :: "json \<Rightarrow> bool" where
  "isinstance_str (JStr s) = True"
| "isinstance_str JNull = False"
| "isinstance_str (JBool b) = False"
| "isinstance_str (JInt i) = False"
| "isinstance_str (JFloat r) = False"
| "isinstance_str (JArr xs) = False"
| "isinstance_str (JObj kvs) = False"

text \<open>The truth value of an object, as \<open>if\<close> and \<open>and\<close> test it.\<close>

fun truthy :: "json \<Rightarrow> bool" where
  "truthy JNull = False"
| "truthy (JBool b) = b"
| "truthy (JInt i) = (i \<noteq> 0)"
| "truthy (JFloat f) = (f \<noteq> Finite 0)"
| "truthy (JStr s) = (s \<noteq> [])"
| "truthy (JArr xs) = (xs \<noteq> [])"
| "truthy (JObj kvs) = (kvs \<noteq> [])"

subsection \<open>Formatting a dict in an f-string\<close>

text \<open>
  The generators build their frames by formatting a dict literal in an f-string, which is
  \<open>str\<close> of the dict, the same as its \<open>repr\<close>. The literals hold strings and integers;
  \<open>pyval\<close> is the type of these literals. Text is ASCII.
\<close>

datatype pyval = PStr string | PInt int | PDict "(string \<times> pyval) list"

fun digits :: "nat \<Rightarrow> string" where
  "digits n = (if n < 10 then [char_of (48 + n)] else digits (n div 10) @ [char_of (48 + n mod 10)])"

declare digits.simps [simp del]

text \<open>\<open>str(i)\<close> of an \<open>int\<close>.\<close>

definition py_str_int :: "int \<Rightarrow> string" where
  "py_str_int i = (if i < 0 then CHR ''-'' # digits (nat (- i)) else digits (nat i))"

definition hex_digit :: "nat \<Rightarrow> char" where
  "hex_digit n = (if n < 10 then char_of (48 + n) else char_of (87 + n))"

text \<open>One character of a string inside \<open>repr\<close>, between quotes \<open>q\<close>.\<close>

definition py_escape :: "char \<Rightarrow> char \<Rightarrow> string" where
  "py_escape q c =
     (if c = CHR 0x5C then [CHR 0x5C, CHR 0x5C]
      else if c = q then [CHR 0x5C, q]
      else if c = CHR 0x09 then [CHR 0x5C, CHR ''t'']
      else if c = CHR 0x0A then [CHR 0x5C, CHR ''n'']
      else if c = CHR 0x0D then [CHR 0x5C, CHR ''r'']
      else if (of_char c :: nat) < 32 \<or> (of_char c :: nat) = 127
        then [CHR 0x5C, CHR ''x'', hex_digit ((of_char c :: nat) div 16), hex_digit ((of_char c :: nat) mod 16)]
      else [c])"

text \<open>
  \<open>repr(s)\<close> of a \<open>str\<close>: single quotes, unless the string has a single quote and no
  double quote.
\<close>

definition py_repr_str :: "string \<Rightarrow> string" where
  "py_repr_str s =
     (let q = (if CHR 0x27 \<in> set s \<and> CHR 0x22 \<notin> set s then CHR 0x22 else CHR 0x27)
      in q # concat (map (py_escape q) s) @ [q])"

text \<open>\<open>sep.join(xs)\<close>.\<close>

fun py_join :: "string \<Rightarrow> string list \<Rightarrow> string" where
  "py_join sep [] = []"
| "py_join sep [x] = x"
| "py_join sep (x # y # ys) = x @ sep @ py_join sep (y # ys)"

fun py_repr :: "pyval \<Rightarrow> string" where
  "py_repr (PStr s) = py_repr_str s"
| "py_repr (PInt i) = py_str_int i"
| "py_repr (PDict kvs) =
     ''{'' @ py_join '', '' (map (\<lambda>kv. py_repr_str (fst kv) @ '': '' @ py_repr (snd kv)) kvs) @ ''}''"

subsection \<open>Responses and streamed bodies\<close>

text \<open>
  A generator is the list of what it does, in order: it yields a chunk of bytes or awaits
  \<open>asyncio.sleep\<close> for a number of seconds. The frames of a stream are its yielded
  chunks.
\<close>

datatype event = Yield string | Sleep rat

fun frames :: "event list \<Rightarrow> string list" where
  "frames [] = []"
| "frames (Yield b # es) = b # frames es"
| "frames (Sleep d # es) = frames es"

text \<open>\<open>range(n)\<close>.\<close>

definition py_range :: "nat \<Rightarrow> int list" where
  "py_range n = map int [0..<n]"

text \<open>
  The response objects: a \<open>JSONResponse\<close> with its content and status code, and a
  \<open>StreamingResponse\<close> with its generator and media type.
\<close>

datatype response =
    JSONResponse json nat
  | StreamingResponse "event list" string

text \<open>
  The call \<open>JSONResponse(content, status_code)\<close> (status code 200 when the call gives
  none) renders the content when the object is built, inside the handler:
  \<open>json.dumps(content, ensure_ascii=False, allow_nan=False, ...).encode("utf-8")\<close>.
  \<open>json.dumps\<close> raises \<open>ValueError\<close> when the content holds a float that is not finite;
  then \<open>encode\<close> raises \<open>UnicodeEncodeError\<close> when a string or a key holds a lone
  surrogate. Limits of the interpreter (recursion depth, memory) are not modelled.
\<close>

fun has_surrogate :: "string \<Rightarrow> bool" where
  "has_surrogate (a # b # s) =
     (((of_char a :: nat) = 0xED \<and> 0xA0 \<le> (of_char b :: nat) \<and> (of_char b :: nat) \<le> 0xBF) \<or>
      has_surrogate (b # s))"
| "has_surrogate [a] = False"
| "has_surrogate [] = False"

fun finite_floats :: "json \<Rightarrow> bool" where
  "finite_floats (JFloat f) = (case f of Finite r \<Rightarrow> True | PosInf \<Rightarrow> False | NegInf \<Rightarrow> False | NaN \<Rightarrow> False)"
| "finite_floats (JArr xs) = list_all finite_floats xs"
| "finite_floats (JObj kvs) = list_all (\<lambda>kv. finite_floats (snd kv)) kvs"
| "finite_floats JNull = True"
| "finite_floats (JBool b) = True"
| "finite_floats (JInt i) = True"
| "finite_floats (JStr s) = True"

fun utf8_encodable :: "json \<Rightarrow> bool" where
  "utf8_encodable (JStr s) = (\<not> has_surrogate s)"
| "utf8_encodable (JArr xs) = list_all utf8_encodable xs"
| "utf8_encodable (JObj kvs) = list_all (\<lambda>kv. \<not> has_surrogate (fst kv) \<and> utf8_encodable (snd kv)) kvs"
| "utf8_encodable JNull = True"
| "utf8_encodable (JBool b) = True"
| "utf8_encodable (JInt i) = True"
| "utf8_encodable (JFloat f) = True"

definition new_JSONResponse :: "json \<Rightarrow> nat \<Rightarrow> py_error + response" where
  "new_JSONResponse content status_code =
     (if \<not> finite_floats content then Inl ValueError
      else if \<not> utf8_encodable content then Inl UnicodeEncodeError
      else Inr (JSONResponse content status_code))"

text \<open>The records given to the logger: \<open>logger.error\<close> twice and \<open>logger.info\<close> once.\<close>

datatype log_record =
    Error_parse
  | Error_type json
  | Info_agent_event json

subsection \<open>The agent card\<close>

definition AGENT_CARD :: json where
  "AGENT_CARD = JObj
     [(''id'', JStr ''pyagent1''),
      (''name'', JStr ''Python Agent''),
      (''version'', JStr ''0.1.0''),
      (''description'', JStr ''Minimal Python A2A agent''),
      (''capabilities'', JArr [JStr ''task_request'', JStr ''agent_discovery'']),
      (''endpoints'', JObj [(''a2a'', JStr ''/api/a2a''), (''agent_card'', JStr ''/api/agent_card'')]),
      (''authentication'', JNull)]"

text \<open>
  The module's only global that holds data is \<open>AGENT_CARD\<close>; the state of the process is
  the value bound to it. Each handler takes the state and returns its result with the
  state after the call.
\<close>

type_synonym state = json

definition get_agent_card :: "state \<Rightarrow> json \<times> state" where
  "get_agent_card s = (s, s)"

definition register_agent_card :: "json \<Rightarrow> state \<Rightarrow> json \<times> state" where
  "register_agent_card card_arg s = (JObj [(''status'', JStr ''ok''), (''card'', card_arg)], s)"

subsection \<open>The generators\<close>

text \<open>One turn of the loop of \<open>stream_task_progress\<close>, and the generator.\<close>

definition progress_step :: "int \<Rightarrow> event list" where
  "progress_step i =
     [Yield (py_repr (PDict [(''type'', PStr ''task_progress''), (''progress'', PInt (i * 20))]) @ ''\<newline>''),
      Sleep (1 / 2)]"

definition stream_task_progress :: "event list" where
  \<open>stream_task_progress =
     concat (map progress_step (py_range 5)) @
     [Yield ''{"type": "result", "payload": {"result": "done"}}\<newline>'']\<close>

text \<open>One turn of the loop of \<open>chunk_stream\<close>, and the generator.\<close>

definition chunk_step :: "int \<Rightarrow> event list" where
  "chunk_step i =
     [Yield (py_repr (PDict [(''type'', PStr ''task_chunk''), (''chunk'', PStr (''partial_'' @ py_str_int i))]) @ ''\<newline>''),
      Sleep (3 / 10)]"

definition chunk_stream :: "event list" where
  "chunk_stream =
     concat (map chunk_step (py_range 3)) @
     [Yield (py_repr (PDict [(''type'', PStr ''result''),
                             (''payload'', PDict [(''result'', PStr ''final from chunk'')])]) @ ''\<newline>'')]"

subsection \<open>The message endpoint\<close>

text \<open>
  The condition of the first check, \<open>"type" not in body or not isinstance(body.get("type"), str)\<close>:
  \<open>or\<close> evaluates its right operand only when the left one is false.
\<close>

definition type_missing_or_invalid :: "json \<Rightarrow> py_error + bool" where
  "type_missing_or_invalid body =
     (case py_in ''type'' body of
        Inl e \<Rightarrow> Inl e
      | Inr present \<Rightarrow>
          if \<not> present then Inr True
          else (case py_get body ''type'' JNull of
                  Inl e \<Rightarrow> Inl e
                | Inr v \<Rightarrow> Inr (\<not> isinstance_str v)))"

text \<open>
  The condition of the streaming branch,
  \<open>msg_type == "task_request" and payload.get("stream", False)\<close>: \<open>and\<close> evaluates its
  right operand only when the left one is true.
\<close>

definition wants_progress_stream :: "json \<Rightarrow> json \<Rightarrow> py_error + bool" where
  "wants_progress_stream msg_type payload =
     (if msg_type = JStr ''task_request''
      then (case py_get payload ''stream'' (JBool False) of
              Inl e \<Rightarrow> Inl e
            | Inr v \<Rightarrow> Inr (truthy v))
      else Inr False)"

text \<open>
  \<open>a2a_endpoint\<close>. Its argument is the outcome of \<open>await request.json()\<close>: \<open>None\<close> when
  the call raises, the parsed body otherwise. It returns the log records it wrote and
  either the response or the exception that leaves the handler.
\<close>

definition a2a_endpoint :: "json option \<Rightarrow> log_record list \<times> (py_error + response)" where
  "a2a_endpoint request_json =
     (case request_json of
        None \<Rightarrow>
          ([Error_parse],
           new_JSONResponse
             (JObj [(''status'', JStr ''error''), (''error'', JStr ''Invalid JSON payload'')])
             400)
      | Some body \<Rightarrow>
          (case type_missing_or_invalid body of
             Inl e \<Rightarrow> ([], Inl e)
           | Inr True \<Rightarrow>
               ([Error_type body],
                new_JSONResponse
                  (JObj [(''status'', JStr ''error''), (''error'', JStr ''Missing or invalid 'type' field'')])
                  400)
           | Inr False \<Rightarrow>
               (case py_getitem body ''type'' of
                  Inl e \<Rightarrow> ([], Inl e)
                | Inr msg_type \<Rightarrow>
                    (case py_get body ''payload'' (JObj []) of
                       Inl e \<Rightarrow> ([], Inl e)
                     | Inr payload \<Rightarrow>
                         (case wants_progress_stream msg_type payload of
                            Inl e \<Rightarrow> ([], Inl e)
                          | Inr True \<Rightarrow>
                              ([], Inr (StreamingResponse stream_task_progress ''application/json''))
                          | Inr False \<Rightarrow>
                              if msg_type = JStr ''task_chunk''
                              then ([], Inr (StreamingResponse chunk_stream ''application/json''))
                              else if msg_type = JStr ''agent_event''
                              then ([Info_agent_event payload],
                                    new_JSONResponse
                                      (JObj [(''status'', JStr ''ok''),
                                             (''type'', JStr ''agent_event''),
                                             (''event'', payload)])
                                      200)
                              else ([],
                                    new_JSONResponse
                                      (JObj [(''status'', JStr ''ok''),
                                             (''type'', msg_type),
                                             (''echo'', body)])
                                      200))))))"

subsection \<open>Serving the card endpoints\<close>

text \<open>
  A client of the card endpoints sends \<open>GET /api/agent_card\<close> or
  \<open>POST /api/agent_card\<close> with a body. \<open>serve\<close> runs the handlers on a sequence of
  such requests, threading the state, and collects the results in order.
\<close>

datatype card_request = GetCard | PostCard json

fun handle_card :: "card_request \<Rightarrow> state \<Rightarrow> json \<times> state" where
  "handle_card GetCard s = get_agent_card s"
| "handle_card (PostCard c) s = register_agent_card c s"

fun serve :: "card_request list \<Rightarrow> state \<Rightarrow> json list \<times> state" where
  "serve [] s = ([], s)"
| "serve (q # qs) s =
     (case handle_card q s of (r, s') \<Rightarrow> (case serve qs s' of (rs, s'') \<Rightarrow> (r # rs, s'')))"

subsection \<open>The messages of test_a2a_interop.py\<close>

definition A2A_MSG :: json where
  "A2A_MSG = JObj
     [(''type'', JStr ''task_request''),
      (''sender'', JStr ''pyagent1''),
      (''recipient'', JStr ''agent1''),
      (''payload'', JObj [(''task_id'', JStr ''t1''), (''stream'', JBool True)])]"

text \<open>The same message after \<open>A2A_MSG["payload"]["stream"] = False\<close>.\<close>

definition A2A_MSG_stream_off :: json where
  "A2A_MSG_stream_off = JObj
     [(''type'', JStr ''task_request''),
      (''sender'', JStr ''pyagent1''),
      (''recipient'', JStr ''agent1''),
      (''payload'', JObj [(''task_id'', JStr ''t1''), (''stream'', JBool False)])]"

definition chunk_msg :: json where
  "chunk_msg = JObj
     [(''type'', JStr ''task_chunk''),
      (''sender'', JStr ''pyagent1''),
      (''recipient'', JStr ''agent1''),
      (''payload'', JObj [(''chunk_id'', JStr ''c1'')])]"

definition event_msg :: json where
  "event_msg = JObj
     [(''type'', JStr ''agent_event''),
      (''sender'', JStr ''pyagent1''),
      (''recipient'', JStr ''agent1''),
      (''payload'', JObj [(''event_id'', JStr ''e1''), (''detail'', JStr ''test event'')])]"

subsection \<open>A necessary condition of JSON object text\<close>

text \<open>
  In the JSON grammar (RFC 8259) an object is \<open>{\<close>, then either \<open>}\<close> or a first member,
  and a member starts with a string, which starts with a double quote; whitespace (space,
  tab, line feed, carriage return) may stand between tokens. So a text that is a JSON
  object starts, after whitespace, with \<open>{\<close> and then, after whitespace, with \<open>"\<close> or \<open>}\<close>.
  \<open>opens_json_object\<close> is this necessary condition, not a full parser.
\<close>

definition json_ws :: "char \<Rightarrow> bool" where
  "json_ws c = (c = CHR '' '' \<or> c = CHR 0x09 \<or> c = CHR 0x0A \<or> c = CHR 0x0D)"

definition opens_json_object :: "string \<Rightarrow> bool" where
  "opens_json_object s =
     (case dropWhile json_ws s of
        [] \<Rightarrow> False
      | c # r \<Rightarrow>
          c = CHR ''{'' \<and>
          (case dropWhile json_ws r of
             [] \<Rightarrow> False
           | d # _ \<Rightarrow> d = CHR 0x22 \<or> d = CHR ''}''))"

section \<open>Properties\<close>

subsection \<open>The bytes of the two streams\<close>

lemma frames_stream_task_progress:
  \<open>frames stream_task_progress =
     [''{'type': 'task_progress', 'progress': 0}\<newline>'',
      ''{'type': 'task_progress', 'progress': 20}\<newline>'',
      ''{'type': 'task_progress', 'progress': 40}\<newline>'',
      ''{'type': 'task_progress', 'progress': 60}\<newline>'',
      ''{'type': 'task_progress', 'progress': 80}\<newline>'',
      ''{"type": "result", "payload": {"result": "done"}}\<newline>'']\<close>
  by code_simp

lemma frames_chunk_stream:
  \<open>frames chunk_stream =
     [''{'type': 'task_chunk', 'chunk': 'partial_0'}\<newline>'',
      ''{'type': 'task_chunk', 'chunk': 'partial_1'}\<newline>'',
      ''{'type': 'task_chunk', 'chunk': 'partial_2'}\<newline>'',
      ''{'type': 'result', 'payload': {'result': 'final from chunk'}}\<newline>'']\<close>
  by code_simp

lemmas endpoint_defs = a2a_endpoint_def type_missing_or_invalid_def wants_progress_stream_def

subsection \<open>Building a response\<close>

lemma new_JSONResponse_ok:
  "finite_floats c \<Longrightarrow> utf8_encodable c \<Longrightarrow> new_JSONResponse c n = Inr (JSONResponse c n)"
  by (simp add: new_JSONResponse_def)

lemma invalid_json_response:
  "new_JSONResponse (JObj [(''status'', JStr ''error''), (''error'', JStr ''Invalid JSON payload'')]) 400 =
     Inr (JSONResponse (JObj [(''status'', JStr ''error''), (''error'', JStr ''Invalid JSON payload'')]) 400)"
  by (rule new_JSONResponse_ok) simp_all

lemma type_error_response:
  "new_JSONResponse (JObj [(''status'', JStr ''error''), (''error'', JStr ''Missing or invalid 'type' field'')]) 400 =
     Inr (JSONResponse (JObj [(''status'', JStr ''error''), (''error'', JStr ''Missing or invalid 'type' field'')]) 400)"
  by (rule new_JSONResponse_ok) simp_all

lemma finite_floats_lookup:
  assumes "finite_floats (JObj kvs)" and "map_of kvs k = Some v"
  shows "finite_floats v"
proof -
  from assms(2) have "(k, v) \<in> set kvs" by (rule map_of_SomeD)
  moreover from assms(1) have "\<forall>kv\<in>set kvs. finite_floats (snd kv)"
    by (simp add: list_all_iff)
  ultimately show ?thesis by force
qed

lemma utf8_encodable_lookup:
  assumes "utf8_encodable (JObj kvs)" and "map_of kvs k = Some v"
  shows "utf8_encodable v"
proof -
  from assms(2) have "(k, v) \<in> set kvs" by (rule map_of_SomeD)
  moreover from assms(1) have "\<forall>kv\<in>set kvs. utf8_encodable (snd kv)"
    by (simp add: list_all_iff)
  ultimately show ?thesis by force
qed

lemma echo_response:
  assumes "finite_floats b" and "utf8_encodable b" and "utf8_encodable (JStr t)"
  shows "new_JSONResponse (JObj [(''status'', JStr ''ok''), (''type'', JStr t), (''echo'', b)]) 200 =
           Inr (JSONResponse (JObj [(''status'', JStr ''ok''), (''type'', JStr t), (''echo'', b)]) 200)"
  using assms by (intro new_JSONResponse_ok) simp_all

lemma ack_response:
  assumes "finite_floats p" and "utf8_encodable p"
  shows "new_JSONResponse (JObj [(''status'', JStr ''ok''), (''type'', JStr ''agent_event''), (''event'', p)]) 200 =
           Inr (JSONResponse (JObj [(''status'', JStr ''ok''), (''type'', JStr ''agent_event''), (''event'', p)]) 200)"
  using assms by (intro new_JSONResponse_ok) simp_all

subsection \<open>Streaming branches\<close>

text \<open>
  C1. A body of type \<open>task_request\<close> whose payload has \<open>stream\<close> equal to \<open>true\<close> is
  answered by a stream of exactly six frames: five \<open>task_progress\<close> frames with progress
  0, 20, 40, 60, 80 in this order, then one \<open>result\<close> frame with payload
  \<open>{result: "done"}\<close>, and nothing after it. The frames are given as the bytes sent.
\<close>

theorem task_request_streams_progress:
  assumes "map_of kvs ''type'' = Some (JStr ''task_request'')"
      and "map_of kvs ''payload'' = Some (JObj pkvs)"
      and "map_of pkvs ''stream'' = Some (JBool True)"
  shows \<open>a2a_endpoint (Some (JObj kvs)) =
           ([], Inr (StreamingResponse stream_task_progress ''application/json'')) \<and>
         frames stream_task_progress =
           [''{'type': 'task_progress', 'progress': 0}\<newline>'',
            ''{'type': 'task_progress', 'progress': 20}\<newline>'',
            ''{'type': 'task_progress', 'progress': 40}\<newline>'',
            ''{'type': 'task_progress', 'progress': 60}\<newline>'',
            ''{'type': 'task_progress', 'progress': 80}\<newline>'',
            ''{"type": "result", "payload": {"result": "done"}}\<newline>'']\<close>
proof
  show "a2a_endpoint (Some (JObj kvs)) =
          ([], Inr (StreamingResponse stream_task_progress ''application/json''))"
    using assms by (simp add: endpoint_defs)
qed (rule frames_stream_task_progress)

text \<open>The streaming request of the interoperability test, \<open>A2A_MSG\<close>.\<close>

theorem task_request_streams_progress_witness:
  \<open>a2a_endpoint (Some A2A_MSG) =
           ([], Inr (StreamingResponse stream_task_progress ''application/json'')) \<and>
         frames stream_task_progress =
           [''{'type': 'task_progress', 'progress': 0}\<newline>'',
            ''{'type': 'task_progress', 'progress': 20}\<newline>'',
            ''{'type': 'task_progress', 'progress': 40}\<newline>'',
            ''{'type': 'task_progress', 'progress': 60}\<newline>'',
            ''{'type': 'task_progress', 'progress': 80}\<newline>'',
            ''{"type": "result", "payload": {"result": "done"}}\<newline>'']\<close>
  unfolding A2A_MSG_def
  by (rule task_request_streams_progress
        [of _ "[(''task_id'', JStr ''t1''), (''stream'', JBool True)]"]) simp_all

text \<open>
  C2. A body of type \<open>task_chunk\<close> is answered, whatever else it holds (so with
  \<open>payload.stream\<close> absent, true or false), by a stream of exactly four frames: three
  \<open>task_chunk\<close> frames with chunks \<open>partial_0\<close>, \<open>partial_1\<close>, \<open>partial_2\<close> in this
  order, then one \<open>result\<close> frame with payload \<open>{result: "final from chunk"}\<close>.
\<close>

theorem task_chunk_streams_chunks:
  assumes "map_of kvs ''type'' = Some (JStr ''task_chunk'')"
  shows \<open>a2a_endpoint (Some (JObj kvs)) =
           ([], Inr (StreamingResponse chunk_stream ''application/json'')) \<and>
         frames chunk_stream =
           [''{'type': 'task_chunk', 'chunk': 'partial_0'}\<newline>'',
            ''{'type': 'task_chunk', 'chunk': 'partial_1'}\<newline>'',
            ''{'type': 'task_chunk', 'chunk': 'partial_2'}\<newline>'',
            ''{'type': 'result', 'payload': {'result': 'final from chunk'}}\<newline>'']\<close>
proof
  show "a2a_endpoint (Some (JObj kvs)) =
          ([], Inr (StreamingResponse chunk_stream ''application/json''))"
    using assms by (simp add: endpoint_defs split: option.split)
qed (rule frames_chunk_stream)

text \<open>The chunk request of the interoperability test, \<open>chunk_msg\<close>, which has no \<open>stream\<close>.\<close>

theorem task_chunk_streams_chunks_witness:
  \<open>a2a_endpoint (Some chunk_msg) =
           ([], Inr (StreamingResponse chunk_stream ''application/json'')) \<and>
         frames chunk_stream =
           [''{'type': 'task_chunk', 'chunk': 'partial_0'}\<newline>'',
            ''{'type': 'task_chunk', 'chunk': 'partial_1'}\<newline>'',
            ''{'type': 'task_chunk', 'chunk': 'partial_2'}\<newline>'',
            ''{'type': 'result', 'payload': {'result': 'final from chunk'}}\<newline>'']\<close>
  unfolding chunk_msg_def
  by (rule task_chunk_streams_chunks) simp

subsection \<open>Immediate branches\<close>

text \<open>
  C3 (as the code has it). The streaming branch tests the truth value of
  \<open>payload.get("stream", False)\<close>, not equality with \<open>true\<close>: a \<open>task_request\<close> whose
  \<open>stream\<close> is the string \<open>"yes"\<close> is streamed, not echoed. And the echo is built by
  \<open>JSONResponse\<close>, which cannot render every envelope: for \<open>{"type": "ping", "x": 1e999}\<close>
  the call raises \<open>ValueError\<close>.
\<close>

theorem truthy_stream_is_not_echoed:
  "snd (a2a_endpoint (Some (JObj [(''type'', JStr ''task_request''),
                                  (''payload'', JObj [(''stream'', JStr ''yes'')])]))) =
     Inr (StreamingResponse stream_task_progress ''application/json'') \<and>
   snd (a2a_endpoint (Some (JObj [(''type'', JStr ''task_request''),
                                  (''payload'', JObj [(''stream'', JStr ''yes'')])]))) \<noteq>
     Inr (JSONResponse
            (JObj [(''status'', JStr ''ok''),
                   (''type'', JStr ''task_request''),
                   (''echo'', JObj [(''type'', JStr ''task_request''),
                                    (''payload'', JObj [(''stream'', JStr ''yes'')])])])
            200) \<and>
   JStr ''yes'' \<noteq> JBool True \<and>
   snd (a2a_endpoint (Some (JObj [(''type'', JStr ''ping''), (''x'', JFloat PosInf)]))) =
     Inl ValueError"
  by (simp add: endpoint_defs new_JSONResponse_def)

text \<open>
  Every truthy \<open>stream\<close> has this effect: a \<open>task_request\<close> whose payload is a mapping
  with a truthy \<open>stream\<close> is answered by the progress stream.
\<close>

lemma truthy_stream_is_streamed:
  assumes "map_of kvs ''type'' = Some (JStr ''task_request'')"
      and "map_of kvs ''payload'' = Some (JObj pkvs)"
      and "map_of pkvs ''stream'' = Some v"
      and "truthy v"
  shows "a2a_endpoint (Some (JObj kvs)) =
           ([], Inr (StreamingResponse stream_task_progress ''application/json''))"
  using assms by (simp add: endpoint_defs)

text \<open>
  C3, amended. Take a body whose \<open>type\<close> is a string other than \<open>task_chunk\<close> and
  \<open>agent_event\<close>; which, when the type is \<open>task_request\<close>, has no payload or a mapping
  payload whose \<open>stream\<close> is absent or false in the sense of Python (\<open>false\<close>, \<open>null\<close>,
  zero, an empty string, list or mapping); and which \<open>JSONResponse\<close> can render (no float
  that is not finite, no lone surrogate). It is answered at once by
  \<open>{status: "ok", type: <type>, echo: <the body>}\<close> with status 200.
\<close>

theorem echo_default:
  assumes "map_of kvs ''type'' = Some (JStr t)"
      and "t \<noteq> ''task_chunk''"
      and "t \<noteq> ''agent_event''"
      and "t = ''task_request'' \<Longrightarrow>
             map_of kvs ''payload'' = None \<or>
             (\<exists>pkvs. map_of kvs ''payload'' = Some (JObj pkvs) \<and>
                     (case map_of pkvs ''stream'' of None \<Rightarrow> True | Some v \<Rightarrow> \<not> truthy v))"
      and "finite_floats (JObj kvs)"
      and "utf8_encodable (JObj kvs)"
  shows "a2a_endpoint (Some (JObj kvs)) =
           ([], Inr (JSONResponse
                       (JObj [(''status'', JStr ''ok''), (''type'', JStr t), (''echo'', JObj kvs)])
                       200))"
proof -
  have "utf8_encodable (JStr t)"
    using assms(6) assms(1) by (rule utf8_encodable_lookup)
  with assms(5,6) have echo:
    "new_JSONResponse (JObj [(''status'', JStr ''ok''), (''type'', JStr t), (''echo'', JObj kvs)]) 200 =
       Inr (JSONResponse (JObj [(''status'', JStr ''ok''), (''type'', JStr t), (''echo'', JObj kvs)]) 200)"
    by (intro echo_response)
  show ?thesis
  proof (cases "t = ''task_request''")
    case True
    from assms(4) [OF True] show ?thesis
    proof (elim disjE exE conjE)
      assume "map_of kvs ''payload'' = None"
      with assms(1) True echo show ?thesis by (simp add: endpoint_defs)
    next
      fix pkvs
      assume "map_of kvs ''payload'' = Some (JObj pkvs)"
        and "case map_of pkvs ''stream'' of None \<Rightarrow> True | Some v \<Rightarrow> \<not> truthy v"
      with assms(1) True echo show ?thesis
        by (simp add: endpoint_defs split: option.splits)
    qed
  next
    case False
    with assms(1-3) echo show ?thesis by (simp add: endpoint_defs split: option.split)
  qed
qed

text \<open>The last request of the interoperability test: \<open>A2A_MSG\<close> with \<open>stream\<close> set to \<open>False\<close>.\<close>

theorem echo_default_witness:
  "a2a_endpoint (Some A2A_MSG_stream_off) =
     ([], Inr (JSONResponse
                 (JObj [(''status'', JStr ''ok''),
                        (''type'', JStr ''task_request''),
                        (''echo'', A2A_MSG_stream_off)])
                 200))"
  unfolding A2A_MSG_stream_off_def
  by (rule echo_default) simp_all

text \<open>
  A body of type \<open>agent_event\<close> whose payload (the body's \<open>payload\<close>, or the empty mapping
  when the body has none) can be rendered by \<open>JSONResponse\<close> is answered at once, without
  a stream, by \<open>{status: "ok", type: "agent_event", event: <payload>}\<close> with status 200;
  the payload is logged once.
\<close>

lemma agent_event_ack:
  assumes "map_of kvs ''type'' = Some (JStr ''agent_event'')"
      and "finite_floats (case map_of kvs ''payload'' of None \<Rightarrow> JObj [] | Some p \<Rightarrow> p)"
      and "utf8_encodable (case map_of kvs ''payload'' of None \<Rightarrow> JObj [] | Some p \<Rightarrow> p)"
  shows "a2a_endpoint (Some (JObj kvs)) =
           ([Info_agent_event (case map_of kvs ''payload'' of None \<Rightarrow> JObj [] | Some p \<Rightarrow> p)],
            Inr (JSONResponse
                   (JObj [(''status'', JStr ''ok''),
                          (''type'', JStr ''agent_event''),
                          (''event'', case map_of kvs ''payload'' of None \<Rightarrow> JObj [] | Some p \<Rightarrow> p)])
                   200))"
proof (cases "map_of kvs ''payload''")
  case None
  with assms(1) show ?thesis
    by (simp add: endpoint_defs ack_response)
next
  case (Some p)
  with assms(2,3) have "finite_floats p" and "utf8_encodable p" by simp_all
  with assms(1) Some show ?thesis
    by (simp add: endpoint_defs ack_response)
qed

text \<open>The event of the interoperability test, \<open>event_msg\<close>.\<close>

lemma agent_event_ack_event_msg:
  "a2a_endpoint (Some event_msg) =
     ([Info_agent_event (JObj [(''event_id'', JStr ''e1''), (''detail'', JStr ''test event'')])],
      Inr (JSONResponse
             (JObj [(''status'', JStr ''ok''),
                    (''type'', JStr ''agent_event''),
                    (''event'', JObj [(''event_id'', JStr ''e1''), (''detail'', JStr ''test event'')])])
             200))"
  using agent_event_ack
    [of "[(''type'', JStr ''agent_event''),
          (''sender'', JStr ''pyagent1''),
          (''recipient'', JStr ''agent1''),
          (''payload'', JObj [(''event_id'', JStr ''e1''), (''detail'', JStr ''test event'')])]"]
  by (simp add: event_msg_def)

text \<open>
  C8 (where the code departs from it). The body
  \<open>{"type": "agent_event", "payload": {"x": 1e999}}\<close> is JSON and has type \<open>agent_event\<close>;
  \<open>request.json()\<close> gives the payload \<open>{"x": inf}\<close>. The handler logs it and then builds
  no response: \<open>JSONResponse\<close> raises \<open>ValueError\<close> on the float that is not finite, and
  nothing catches it.
\<close>

theorem agent_event_inf_payload_raises:
  "a2a_endpoint (Some (JObj [(''type'', JStr ''agent_event''),
                             (''payload'', JObj [(''x'', JFloat PosInf)])])) =
     ([Info_agent_event (JObj [(''x'', JFloat PosInf)])], Inl ValueError)"
  by (simp add: endpoint_defs new_JSONResponse_def)

subsection \<open>Validation\<close>

text \<open>
  When \<open>request.json()\<close> raises, the answer is exactly
  \<open>{status: "error", error: "Invalid JSON payload"}\<close> with status 400: the handler logs
  the failure and returns before it looks at any field.
\<close>

lemma unparsable_body_rejected:
  "a2a_endpoint None =
     ([Error_parse],
      Inr (JSONResponse
             (JObj [(''status'', JStr ''error''), (''error'', JStr ''Invalid JSON payload'')])
             400))"
  by (simp add: a2a_endpoint_def invalid_json_response)

text \<open>
  C5 (where the code departs from it). The body \<open>NaN\<close> is not JSON and is not an object,
  yet \<open>request.json()\<close> does not raise on it: it returns the float not-a-number. The
  handler then gives no 400 response: \<open>"type" not in body\<close> raises \<open>TypeError\<close> on a
  float. The body \<open>{"type": "task_chunk", "payload": NaN}\<close>, which is not JSON either, is
  dispatched: it is answered by the chunk stream.
\<close>

theorem nan_body_is_not_rejected:
  "a2a_endpoint (Some (JFloat NaN)) = ([], Inl TypeError) \<and>
   a2a_endpoint (Some (JObj [(''type'', JStr ''task_chunk''), (''payload'', JFloat NaN)])) =
     ([], Inr (StreamingResponse chunk_stream ''application/json''))"
  by (simp add: endpoint_defs)

text \<open>
  A mapping body whose \<open>type\<close> is absent, \<open>null\<close> or any value that is not a string is
  answered by the 400 response of the type check, whatever its other fields are.
\<close>

lemma type_error_on_mapping_body:
  assumes "map_of kvs ''type'' = None \<or> (\<exists>v. map_of kvs ''type'' = Some v \<and> \<not> isinstance_str v)"
  shows "a2a_endpoint (Some (JObj kvs)) =
           ([Error_type (JObj kvs)],
            Inr (JSONResponse
                   (JObj [(''status'', JStr ''error''), (''error'', JStr ''Missing or invalid 'type' field'')])
                   400))"
  using assms
proof (elim disjE exE conjE)
  assume "map_of kvs ''type'' = None"
  then show ?thesis by (simp add: endpoint_defs type_error_response)
next
  fix v assume "map_of kvs ''type'' = Some v" and "\<not> isinstance_str v"
  then show ?thesis by (simp add: endpoint_defs type_error_response)
qed

text \<open>
  C4 (where the code departs from it). The parsed body \<open>null\<close> has no \<open>type\<close> field, yet
  the handler does not answer with the 400 response: \<open>"type" not in body\<close> raises
  \<open>TypeError\<close> on \<open>None\<close>, and nothing catches it. The parsed body \<open>[]\<close>, which has no
  \<open>type\<close> field either, does get the 400 response.
\<close>

theorem null_body_raises:
  "a2a_endpoint (Some JNull) = ([], Inl TypeError) \<and>
   a2a_endpoint (Some (JArr [])) =
     ([Error_type (JArr [])],
      Inr (JSONResponse
             (JObj [(''status'', JStr ''error''), (''error'', JStr ''Missing or invalid 'type' field'')])
             400))"
  by (simp add: endpoint_defs type_error_response)


text \<open>
  A body passes the type check only when it is a mapping whose \<open>type\<close> field is a
  string.
\<close>

lemma type_check_passes:
  assumes "type_missing_or_invalid body = Inr False"
  shows "\<exists>kvs t. body = JObj kvs \<and> map_of kvs ''type'' = Some (JStr t)"
proof (cases body)
  case (JObj kvs)
  show ?thesis
  proof (cases "map_of kvs ''type''")
    case None
    with JObj assms show ?thesis by (simp add: type_missing_or_invalid_def)
  next
    case (Some v)
    with JObj assms show ?thesis
      by (cases v) (simp_all add: type_missing_or_invalid_def)
  qed
next
  case (JArr xs)
  with assms show ?thesis
    by (cases "JStr ''type'' \<in> set xs") (simp_all add: type_missing_or_invalid_def)
next
  case (JStr x)
  with assms show ?thesis
    by (cases "str_contains ''type'' x") (simp_all add: type_missing_or_invalid_def)
qed (use assms in \<open>simp_all add: type_missing_or_invalid_def\<close>)



text \<open>
  In particular, every body that the handler answers with something other than the 400
  response of the type check is such a mapping.
\<close>

lemma answered_type_is_str:
  assumes "snd (a2a_endpoint (Some body)) = Inr r"
      and "r \<noteq> JSONResponse
                 (JObj [(''status'', JStr ''error''), (''error'', JStr ''Missing or invalid 'type' field'')])
                 400"
  shows "\<exists>kvs t. body = JObj kvs \<and> map_of kvs ''type'' = Some (JStr t)"
proof (rule type_check_passes)
  show "type_missing_or_invalid body = Inr False"
  proof (cases "type_missing_or_invalid body")
    case (Inl e)
    with assms(1) show ?thesis by (simp add: a2a_endpoint_def)
  next
    case (Inr b)
    with assms show ?thesis
      by (cases b) (simp_all add: a2a_endpoint_def type_error_response)
  qed
qed

subsection \<open>Shape of the payload\<close>

text \<open>
  With a string \<open>type\<close>, the handler returns a response whenever the payload of a
  \<open>task_request\<close> is absent or a mapping and \<open>JSONResponse\<close> can render the body; for a
  type other than \<open>task_request\<close> the payload is not inspected.
\<close>

lemma returns_on_mapping_payload:
  assumes "map_of kvs ''type'' = Some (JStr t)"
      and "t = ''task_request'' \<Longrightarrow>
             map_of kvs ''payload'' = None \<or> (\<exists>pkvs. map_of kvs ''payload'' = Some (JObj pkvs))"
      and "finite_floats (JObj kvs)"
      and "utf8_encodable (JObj kvs)"
  shows "\<exists>r. snd (a2a_endpoint (Some (JObj kvs))) = Inr r"
proof -
  have "utf8_encodable (JStr t)"
    using assms(4) assms(1) by (rule utf8_encodable_lookup)
  with assms(3,4) have echo:
    "new_JSONResponse (JObj [(''status'', JStr ''ok''), (''type'', JStr t), (''echo'', JObj kvs)]) 200 =
       Inr (JSONResponse (JObj [(''status'', JStr ''ok''), (''type'', JStr t), (''echo'', JObj kvs)]) 200)"
    by (intro echo_response)
  have ack:
    "new_JSONResponse
       (JObj [(''status'', JStr ''ok''), (''type'', JStr ''agent_event''),
              (''event'', case map_of kvs ''payload'' of None \<Rightarrow> JObj [] | Some p \<Rightarrow> p)]) 200 =
     Inr (JSONResponse
       (JObj [(''status'', JStr ''ok''), (''type'', JStr ''agent_event''),
              (''event'', case map_of kvs ''payload'' of None \<Rightarrow> JObj [] | Some p \<Rightarrow> p)]) 200)"
  proof (cases "map_of kvs ''payload''")
    case None
    then show ?thesis by (simp add: ack_response)
  next
    case (Some p)
    from assms(3) Some have "finite_floats p" by (rule finite_floats_lookup)
    moreover from assms(4) Some have "utf8_encodable p" by (rule utf8_encodable_lookup)
    ultimately show ?thesis using Some by (simp add: ack_response)
  qed
  show ?thesis
  proof (cases "t = ''task_request''")
    case True
    from assms(2) [OF True] show ?thesis
    proof (elim disjE exE)
      assume "map_of kvs ''payload'' = None"
      with assms(1) True echo show ?thesis by (simp add: endpoint_defs)
    next
      fix pkvs assume "map_of kvs ''payload'' = Some (JObj pkvs)"
      with assms(1) True echo show ?thesis
        by (cases "truthy (case map_of pkvs ''stream'' of None \<Rightarrow> JBool False | Some v \<Rightarrow> v)")
           (simp_all add: endpoint_defs)
    qed
  next
    case False
    show ?thesis
    proof (cases "t = ''task_chunk''")
      case True
      with assms(1) show ?thesis by (simp add: endpoint_defs split: option.split)
    next
      case not_chunk: False
      show ?thesis
      proof (cases "t = ''agent_event''")
        case True
        with assms(1) ack show ?thesis by (simp add: endpoint_defs)
      next
        case not_event: False
        with assms(1) False not_chunk echo show ?thesis
          by (simp add: endpoint_defs split: option.split)
      qed
    qed
  qed
qed

text \<open>
  C6 (where the code departs from it). The body \<open>{"type": "task_request", "payload": null}\<close>
  passes the type check, and the handler produces no response:
  \<open>payload.get("stream", False)\<close> raises \<open>AttributeError\<close> on \<open>None\<close>.
\<close>

theorem task_request_null_payload_raises:
  "type_missing_or_invalid (JObj [(''type'', JStr ''task_request''), (''payload'', JNull)]) = Inr False \<and>
   a2a_endpoint (Some (JObj [(''type'', JStr ''task_request''), (''payload'', JNull)])) =
     ([], Inl AttributeError)"
  by (simp add: endpoint_defs)

subsection \<open>Encoding of the frames\<close>

text \<open>
  C7 (where the code departs from it). The frames built by formatting a dict in an
  f-string are the \<open>repr\<close> of the dict, with single quotes: the five progress frames and
  all four frames of the chunk stream do not open as a JSON object does. Only the last
  frame of the progress stream, a bytes literal, does.
\<close>

theorem frames_are_python_repr:
  "hd (frames stream_task_progress) = ''{'type': 'task_progress', 'progress': 0}\<newline>'' \<and>
   map opens_json_object (frames stream_task_progress) = [False, False, False, False, False, True] \<and>
   map opens_json_object (frames chunk_stream) = [False, False, False, False]"
  by code_simp

subsection \<open>The agent card\<close>

lemma serve_from:
  "serve qs s =
     (map (\<lambda>q. case q of GetCard \<Rightarrow> s
                | PostCard c \<Rightarrow> JObj [(''status'', JStr ''ok''), (''card'', c)]) qs, s)"
proof (induction qs)
  case Nil
  show ?case by simp
next
  case (Cons q qs)
  then show ?case
    by (cases q) (simp_all add: get_agent_card_def register_agent_card_def)
qed

text \<open>
  C10. In any sequence of \<open>GET\<close> and \<open>POST\<close> requests to \<open>/api/agent_card\<close>, started
  from the card of the module, every \<open>GET\<close> returns that same card, every \<open>POST\<close> returns
  \<open>{status: "ok", card: <its body>}\<close>, and the card held by the process is unchanged at
  the end.
\<close>

theorem agent_card_stable:
  "serve qs AGENT_CARD =
     (map (\<lambda>q. case q of GetCard \<Rightarrow> AGENT_CARD
                | PostCard c \<Rightarrow> JObj [(''status'', JStr ''ok''), (''card'', c)]) qs,
      AGENT_CARD)"
  by (rule serve_from)

end
